theory Spec2Isabelle
  imports Main
begin

section \<open>Deserialized data: the values the normalizers work on\<close>

text \<open>
  \<^verbatim>\<open>bib_models/util.py\<close> works on deserialized JSON/YAML: \<^verbatim>\<open>None\<close>, booleans,
  integers, floats, strings, lists, and dicts with string keys. A dict is an association
  list in insertion order (the order is visible through \<^verbatim>\<open>str()\<close>); a well-formed dict
  has distinct keys. Records are trees: no object is reachable along two paths.
  A float is given by its \<^verbatim>\<open>repr\<close>, the shortest string that reads back as the same
  float: the module can observe a float only through \<^verbatim>\<open>str()\<close> and through its truth
  value, and a float is falsy exactly when it is \<^verbatim>\<open>0.0\<close> or \<^verbatim>\<open>-0.0\<close>. A character is
  a code point from 0 to 255.
\<close>

datatype pyval =
    PNone
  | PBool bool
  | PInt int
  | PFloat string
  | PStr string
  | PList "pyval list"
  | PDict "(string \<times> pyval) list"

type_synonym pydict = "(string \<times> pyval) list"

text \<open>The exceptions the module can raise by itself or through a builtin.\<close>

datatype pyerr = TypeError | AttributeError | ValueError

text \<open>Truth value of an object, as tested by \<^verbatim>\<open>if x:\<close>, \<^verbatim>\<open>x or y\<close>, \<^verbatim>\<open>not x\<close>.\<close>

fun truthy :: "pyval \<Rightarrow> bool" where
  "truthy PNone = False"
| "truthy (PBool b) = b"
| "truthy (PInt i) = (i \<noteq> 0)"
| "truthy (PFloat r) = (r \<noteq> ''0.0'' \<and> r \<noteq> ''-0.0'')"
| "truthy (PStr s) = (s \<noteq> [])"
| "truthy (PList xs) = (xs \<noteq> [])"
| "truthy (PDict kvs) = (kvs \<noteq> [])"

fun isinstance_str :: "pyval \<Rightarrow> bool" where
  "isinstance_str (PStr s) = True"
| "isinstance_str v = False"

fun isinstance_dict :: "pyval \<Rightarrow> bool" where
  "isinstance_dict (PDict d) = True"
| "isinstance_dict v = False"

subsection \<open>Dict operations\<close>

text \<open>\<^verbatim>\<open>k in d\<close>.\<close>

definition has_key :: "pydict \<Rightarrow> string \<Rightarrow> bool" where
  "has_key d k = (map_of d k \<noteq> None)"

text \<open>\<^verbatim>\<open>d.get(k, default)\<close> on a dict.\<close>

definition get_or :: "pydict \<Rightarrow> string \<Rightarrow> pyval \<Rightarrow> pyval" where
  "get_or d k dflt = (case map_of d k of None \<Rightarrow> dflt | Some v \<Rightarrow> v)"

text \<open>
  \<^verbatim>\<open>x.get(k, default)\<close> on any object: only a dict has the method, anything else
  raises \<^verbatim>\<open>AttributeError\<close>.
\<close>

fun py_get :: "pyval \<Rightarrow> string \<Rightarrow> pyval \<Rightarrow> pyerr + pyval" where
  "py_get (PDict d) k dflt = Inr (get_or d k dflt)"
| "py_get v k dflt = Inl AttributeError"

text \<open>
  \<^verbatim>\<open>k in x\<close> for a string \<open>k\<close>: key membership on a dict, substring test on a
  string, item membership on a list; anything else raises \<^verbatim>\<open>TypeError\<close>.
\<close>

fun is_substring :: "string \<Rightarrow> string \<Rightarrow> bool" where
  "is_substring k [] = (k = [])"
| "is_substring k (c # cs) = (take (length k) (c # cs) = k \<or> is_substring k cs)"

fun py_in :: "string \<Rightarrow> pyval \<Rightarrow> pyerr + bool" where
  "py_in k (PDict d) = Inr (has_key d k)"
| "py_in k (PStr s) = Inr (is_substring k s)"
| "py_in k (PList xs) = Inr (PStr k \<in> set xs)"
| "py_in k v = Inl TypeError"

text \<open>\<^verbatim>\<open>d[k] = v\<close>: an existing key keeps its position, a new key goes last.\<close>

fun dict_set :: "pydict \<Rightarrow> string \<Rightarrow> pyval \<Rightarrow> pydict" where
  "dict_set [] k v = [(k, v)]"
| "dict_set ((k', v') # d) k v =
     (if k' = k then (k, v) # d else (k', v') # dict_set d k v)"

text \<open>\<^verbatim>\<open>{**a, **b}\<close>: the items of \<open>b\<close> are stored into \<open>a\<close> one by one.\<close>

definition dict_merge :: "pydict \<Rightarrow> pydict \<Rightarrow> pydict" where
  "dict_merge a b = foldl (\<lambda>acc kv. dict_set acc (fst kv) (snd kv)) a b"

text \<open>
  Iteration (\<^verbatim>\<open>for x in v\<close>): a list gives its items, a string its characters as
  one-character strings, a dict its keys; anything else raises \<^verbatim>\<open>TypeError\<close>.
\<close>

fun py_iter :: "pyval \<Rightarrow> pyerr + pyval list" where
  "py_iter (PList xs) = Inr xs"
| "py_iter (PStr s) = Inr (map (\<lambda>c. PStr [c]) s)"
| "py_iter (PDict d) = Inr (map (\<lambda>kv. PStr (fst kv)) d)"
| "py_iter v = Inl TypeError"

text \<open>A list comprehension over a function that may raise: the first exception ends it.\<close>

fun map_result :: "('a \<Rightarrow> pyerr + 'b) \<Rightarrow> 'a list \<Rightarrow> pyerr + 'b list" where
  "map_result f [] = Inr []"
| "map_result f (x # xs) =
     (case f x of
        Inl e \<Rightarrow> Inl e
      | Inr y \<Rightarrow> (case map_result f xs of Inl e \<Rightarrow> Inl e | Inr ys \<Rightarrow> Inr (y # ys)))"

subsection \<open>The builtin \<^verbatim>\<open>str()\<close>\<close>

text \<open>
  \<^verbatim>\<open>str(v)\<close> is \<open>v\<close> itself for a string and \<^verbatim>\<open>repr(v)\<close> otherwise.

  The conversion of an integer to decimal raises \<^verbatim>\<open>ValueError\<close> when the integer has
  more digits (the sign apart) than the interpreter's limit,
  \<^verbatim>\<open>sys.int_info.default_max_str_digits\<close>, which is 4300. The \<^verbatim>\<open>repr\<close> of a list or
  dict converts the items in order, so it raises when one of them does.

  The \<^verbatim>\<open>repr\<close> of a string is quoted (with double quotes only when it holds a single
  quote and no double quote) and escapes the backslash, the quote, tab, newline,
  carriage return and every other character that is not printable: of the code points
  up to 255 these are 0 to 31, 127 to 160 and 173.
\<close>

lemma map_result_cong [fundef_cong]:
  "xs = ys \<Longrightarrow> (\<And>x. x \<in> set ys \<Longrightarrow> f x = g x) \<Longrightarrow> map_result f xs = map_result g ys"
  by (induction ys arbitrary: xs) (auto split: sum.splits)

definition int_max_str_digits :: nat where
  "int_max_str_digits = 4300"

function digits :: "nat \<Rightarrow> string" where
  "digits n =
     (if n < 10 then [char_of (48 + n)]
      else digits (n div 10) @ [char_of (48 + n mod 10)])"
  by pat_completeness auto
termination
  by (relation "measure id") auto

definition int_repr :: "int \<Rightarrow> pyerr + string" where
  "int_repr i =
     (if 10 ^ int_max_str_digits \<le> \<bar>i\<bar> then Inl ValueError
      else Inr (if i < 0 then CHR ''-'' # digits (nat (- i)) else digits (nat i)))"

definition hex_digit :: "nat \<Rightarrow> char" where
  "hex_digit n = (if n < 10 then char_of (48 + n) else char_of (87 + n))"

definition printable :: "char \<Rightarrow> bool" where
  "printable c =
     (let n = (of_char c :: nat) in \<not> (n < 32 \<or> (127 \<le> n \<and> n \<le> 160) \<or> n = 173))"

definition escape_char :: "char \<Rightarrow> char \<Rightarrow> string" where
  "escape_char q c =
     (if c = CHR 0x5C then [CHR 0x5C, CHR 0x5C]
      else if c = q then [CHR 0x5C, q]
      else if c = CHR 0x09 then [CHR 0x5C, CHR ''t'']
      else if c = CHR 0x0A then [CHR 0x5C, CHR ''n'']
      else if c = CHR 0x0D then [CHR 0x5C, CHR ''r'']
      else if \<not> printable c
        then [CHR 0x5C, CHR ''x'', hex_digit (of_char c div 16), hex_digit (of_char c mod 16)]
      else [c])"

definition str_repr :: "string \<Rightarrow> string" where
  "str_repr s =
     (let q = (if CHR 0x27 \<in> set s \<and> CHR 0x22 \<notin> set s then CHR 0x22 else CHR 0x27)
      in q # concat (map (escape_char q) s) @ [q])"

fun join :: "string \<Rightarrow> string list \<Rightarrow> string" where
  "join sep [] = []"
| "join sep [x] = x"
| "join sep (x # y # ys) = x @ sep @ join sep (y # ys)"

fun py_repr :: "pyval \<Rightarrow> pyerr + string" where
  "py_repr PNone = Inr ''None''"
| "py_repr (PBool b) = Inr (if b then ''True'' else ''False'')"
| "py_repr (PInt i) = int_repr i"
| "py_repr (PFloat r) = Inr r"
| "py_repr (PStr s) = Inr (str_repr s)"
| "py_repr (PList xs) =
     (case map_result py_repr xs of
        Inl e \<Rightarrow> Inl e
      | Inr ss \<Rightarrow> Inr (''['' @ join '', '' ss @ '']''))"
| "py_repr (PDict d) =
     (case map_result
             (\<lambda>kv. case py_repr (snd kv) of
                      Inl e \<Rightarrow> Inl e
                    | Inr s \<Rightarrow> Inr (str_repr (fst kv) @ '': '' @ s)) d of
        Inl e \<Rightarrow> Inl e
      | Inr ss \<Rightarrow> Inr (''{'' @ join '', '' ss @ ''}''))"

fun py_str :: "pyval \<Rightarrow> pyerr + string" where
  "py_str (PStr s) = Inr s"
| "py_str v = py_repr v"

text \<open>\<^verbatim>\<open>str(v)\<close> as an object: the string, or the exception.\<close>

definition str_object :: "pyval \<Rightarrow> pyerr + pyval" where
  "str_object v = (case py_str v of Inl e \<Rightarrow> Inl e | Inr s \<Rightarrow> Inr (PStr s))"

section \<open>Field normalizers\<close>

text \<open>
  Modelled from the spec: \<^verbatim>\<open>common.util.as_list\<close> is imported by the module and is not
  part of the sources at hand. The spec says of the value it is applied to that it is
  "wrapped into a list if given as a single value": a list is returned as it is, any
  other value becomes the one-item list holding it.
\<close>

fun as_list :: "pyval \<Rightarrow> pyval list" where
  "as_list (PList xs) = xs"
| "as_list v = [v]"

text \<open>\<^verbatim>\<open>to_plain_string\<close>, util.py lines 184-194.\<close>

definition to_plain_string :: "pyval \<Rightarrow> pyerr + pyval" where
  "to_plain_string raw =
     (if isinstance_str raw then Inr raw
      else if isinstance_dict raw then
        (case py_get raw ''content'' PNone of
           Inl e \<Rightarrow> Inl e
         | Inr content \<Rightarrow>
             if truthy content then str_object content
             else str_object raw)
      else str_object raw)"

text \<open>\<^verbatim>\<open>normalize_role\<close>, util.py lines 197-207.\<close>

definition normalize_role :: "pyval \<Rightarrow> pyerr + pyval" where
  "normalize_role raw =
     (let invalid_role =
            (case str_object raw of
               Inl e \<Rightarrow> Inl e
             | Inr s \<Rightarrow> Inr (PDict [(''description'', s)]))
      in if isinstance_str raw then Inr (PDict [(''type'', raw)])
         else if isinstance_dict raw then
           (case py_in ''type'' raw of
              Inl e \<Rightarrow> Inl e
            | Inr has_type \<Rightarrow>
                if has_type then Inr raw
                else
                  (case py_in ''description'' raw of
                     Inl e \<Rightarrow> Inl e
                   | Inr has_description \<Rightarrow>
                       if has_description then Inr raw
                       else invalid_role))
         else invalid_role)"


text \<open>
  \<^verbatim>\<open>ensure_formatted_string_content\<close>, util.py lines 219-229. \<^verbatim>\<open>fname.get\<close> needs a
  dict. \<^verbatim>\<open>dict(content='', **fname)\<close> is a call with the keyword \<^verbatim>\<open>content\<close> and the
  items of \<open>fname\<close> as further keywords: when \<open>fname\<close> has the key \<^verbatim>\<open>content\<close> itself
  the call raises \<^verbatim>\<open>TypeError\<close> (multiple values for a keyword argument).
\<close>

definition ensure_formatted_string_content :: "pyval \<Rightarrow> pyerr + pyval" where
  "ensure_formatted_string_content fname =
     (case py_get fname ''content'' PNone of
        Inl e \<Rightarrow> Inl e
      | Inr content \<Rightarrow>
          if \<not> truthy content then
            (case fname of
               PDict d \<Rightarrow>
                 if has_key d ''content'' then Inl TypeError
                 else Inr (PDict ((''content'', PStr '''') # d))
             | _ \<Rightarrow> Inl TypeError)
          else Inr fname)"

text \<open>\<^verbatim>\<open>normalize_version\<close>, util.py lines 232-241.\<close>

definition normalize_version :: "pyval \<Rightarrow> pyerr + pyval" where
  "normalize_version raw =
     (if \<not> isinstance_str raw then Inl TypeError
      else Inr (PDict [(''draft'', raw)]))"

text \<open>
  \<^verbatim>\<open>normalize_contact\<close>, util.py lines 244-287. The function returns \<^verbatim>\<open>None\<close>
  (\<open>PNone\<close>) for a contact to drop. \<^verbatim>\<open>raw['value']\<close> is read only after
  \<^verbatim>\<open>'value' in raw\<close>, and \<^verbatim>\<open>raw['phone']\<close> only after \<^verbatim>\<open>'phone' in raw\<close>.
\<close>

definition normalize_contact :: "pyval \<Rightarrow> pyerr + pyval" where
  "normalize_contact raw =
     (case raw of
        PDict d \<Rightarrow>
          (let type = get_or d ''type'' PNone;
               fallthrough =
                 (if has_key d ''city'' \<or> has_key d ''country'' then
                    Inr (PDict [(''address'', raw)])
                  else if has_key d ''phone'' \<and> isinstance_str (get_or d ''phone'' PNone) then
                    Inr (PDict [(''phone'', PDict [(''content'', get_or d ''phone'' PNone)])])
                  else Inr raw)
           in if truthy type \<and> has_key d ''value'' then
                (let val = get_or d ''value'' PNone
                 in if truthy val then
                      (if type = PStr ''email'' then Inr (PDict [(''email'', val)])
                       else if type = PStr ''uri'' \<or> type = PStr ''url'' then
                         Inr (PDict [(''uri'', val)])
                       else if type = PStr ''phone'' then
                         Inr (PDict [(''phone'', PDict [(''content'', val)])])
                       else fallthrough)
                    else Inr PNone)
              else fallthrough)
      | _ \<Rightarrow> Inl TypeError)"

section \<open>The relaxed canonicalizer\<close>

text \<open>
  \<^verbatim>\<open>normalize_relaxed\<close> (util.py lines 100-181) changes \<open>data\<close> in place and returns
  it. In the model every part of it returns the object as it is left, together with the
  exception that ended it, if any: an exception leaves the changes made before it in
  place, and the caller (\<^verbatim>\<open>construct_bibitem\<close>) goes on with the record in that
  state.
\<close>

text \<open>Lines 113-121: the \<^verbatim>\<open>version\<close> entry, under \<^verbatim>\<open>try ... except Exception: pass\<close>.\<close>

definition nr_version :: "pydict \<Rightarrow> pydict" where
  "nr_version data =
     (let versions = as_list (get_or data ''version'' (PList []))
      in if versions \<noteq> [] then
           (case map_result
                   (\<lambda>item. if isinstance_str item then normalize_version item else Inr item)
                   versions of
              Inl e \<Rightarrow> data
            | Inr vs \<Rightarrow> dict_set data ''version'' (PList vs))
         else data)"

text \<open>Lines 123-127: the \<^verbatim>\<open>edition\<close> entry.\<close>

definition nr_edition :: "pydict \<Rightarrow> pydict" where
  "nr_edition data =
     (let edition = get_or data ''edition'' PNone
      in if truthy edition \<and> isinstance_str edition
         then dict_set data ''edition'' (PDict [(''content'', edition)])
         else data)"

text \<open>Lines 129-133: the \<^verbatim>\<open>keyword\<close> entry; the comprehension iterates whatever is there.\<close>

definition nr_keyword :: "pydict \<Rightarrow> pydict \<times> pyerr option" where
  "nr_keyword data =
     (let keywords = get_or data ''keyword'' (PList [])
      in if truthy keywords then
           (case py_iter keywords of
              Inl e \<Rightarrow> (data, Some e)
            | Inr items \<Rightarrow>
                (case map_result to_plain_string items of
                   Inl e \<Rightarrow> (data, Some e)
                 | Inr ks \<Rightarrow> (dict_set data ''keyword'' (PList ks), None)))
         else (data, None))"

text \<open>
  Lines 142-155: the contacts of \<open>person_or_org\<close>. \<^verbatim>\<open>person_or_org.get\<close> is outside
  the \<^verbatim>\<open>try\<close>; the comprehension is inside it.
\<close>

fun adapt_contacts :: "pyval \<Rightarrow> pyval \<times> pyerr option" where
  "adapt_contacts (PDict po) =
     (let contacts = as_list (get_or po ''contact'' (PList []))
      in if contacts \<noteq> [] then
           (case map_result normalize_contact (filter isinstance_dict contacts) of
              Inl e \<Rightarrow> (PDict po, None)
            | Inr ns \<Rightarrow>
                (PDict (dict_set po ''contact'' (PList (filter (\<lambda>n. n \<noteq> PNone) ns))), None))
         else (PDict po, None))"
| "adapt_contacts v = (v, Some AttributeError)"

text \<open>Lines 159-166: the forenames and formatted initials of a truthy \<open>gname\<close>.\<close>

fun normalize_given :: "pyval \<Rightarrow> pyval \<times> pyerr option" where
  "normalize_given (PDict gname) =
     (let fnames = as_list (get_or gname ''forename'' (PList []))
      in case (if fnames \<noteq> [] then
                 (case map_result ensure_formatted_string_content fnames of
                    Inl e \<Rightarrow> (gname, Some e)
                  | Inr fs \<Rightarrow> (dict_set gname ''forename'' (PList fs), None))
               else (gname, None)) of
           (g1, Some e) \<Rightarrow> (PDict g1, Some e)
         | (g1, None) \<Rightarrow>
             (let fi = get_or g1 ''formatted_initials'' PNone
              in if truthy fi then
                   (case ensure_formatted_string_content fi of
                      Inl e \<Rightarrow> (PDict g1, Some e)
                    | Inr fi' \<Rightarrow> (PDict (dict_set g1 ''formatted_initials'' fi'), None))
                 else (PDict g1, None)))"
| "normalize_given v = (v, Some AttributeError)"

text \<open>
  Lines 157-166: \<^verbatim>\<open>person.get('name', {}).get('given', None)\<close> and what is done to it.
  The given name is changed in place, so the change shows in the person.
\<close>

fun normalize_person_name :: "pyval \<Rightarrow> pyval \<times> pyerr option" where
  "normalize_person_name (PDict person) =
     (let name = get_or person ''name'' (PDict [])
      in case py_get name ''given'' PNone of
           Inl e \<Rightarrow> (PDict person, Some e)
         | Inr gname \<Rightarrow>
             if truthy gname then
               (case normalize_given gname of
                  (gname', err) \<Rightarrow>
                    (case name of
                       PDict n \<Rightarrow>
                         (PDict (dict_set person ''name'' (PDict (dict_set n ''given'' gname'))), err)
                     | _ \<Rightarrow> (PDict person, err)))
             else (PDict person, None))"
| "normalize_person_name v = (v, Some AttributeError)"

text \<open>Lines 136-169: one pass of the loop over the contributors.\<close>

fun normalize_contributor :: "pyval \<Rightarrow> pyval \<times> pyerr option" where
  "normalize_contributor (PDict contributor) =
     (let person = get_or contributor ''person'' PNone;
          org = get_or contributor ''organization'' PNone
      in case (if truthy person \<or> truthy org then
                 (let person_or_org = (if truthy person then person else org);
                      key = (if truthy person then ''person'' else ''organization'')
                  in case adapt_contacts person_or_org of
                       (po, Some e) \<Rightarrow> (dict_set contributor key po, Some e)
                     | (po, None) \<Rightarrow>
                         if truthy person then
                           (case normalize_person_name po of
                              (po', err) \<Rightarrow> (dict_set contributor key po', err))
                         else (dict_set contributor key po, None))
               else (contributor, None)) of
           (c1, Some e) \<Rightarrow> (PDict c1, Some e)
         | (c1, None) \<Rightarrow>
             (let role = get_or c1 ''role'' PNone;
                  roles = as_list (if truthy role then role else PList [])
              in if roles \<noteq> [] then
                   (case map_result normalize_role roles of
                      Inl e \<Rightarrow> (PDict c1, Some e)
                    | Inr rs \<Rightarrow> (PDict (dict_set c1 ''role'' (PList rs)), None))
                 else (PDict c1, None)))"
| "normalize_contributor v = (v, Some AttributeError)"

text \<open>The loop of line 135 over the items: it stops at the first exception.\<close>

fun normalize_contributors :: "pyval list \<Rightarrow> pyval list \<times> pyerr option" where
  "normalize_contributors [] = ([], None)"
| "normalize_contributors (c # cs) =
     (case normalize_contributor c of
        (c', Some e) \<Rightarrow> (c' # cs, Some e)
      | (c', None) \<Rightarrow>
          (case normalize_contributors cs of (cs', err) \<Rightarrow> (c' # cs', err)))"

text \<open>
  Lines 135-169: \<^verbatim>\<open>for contributor in data.get('contributor', [])\<close>. The items of a
  list are changed in place; the items of any other iterable are fresh strings.
\<close>

definition nr_contributor :: "pydict \<Rightarrow> pydict \<times> pyerr option" where
  "nr_contributor data =
     (let contributors = get_or data ''contributor'' (PList [])
      in case py_iter contributors of
           Inl e \<Rightarrow> (data, Some e)
         | Inr items \<Rightarrow>
             (case normalize_contributors items of
                (items', err) \<Rightarrow>
                  (case map_of data ''contributor'' of
                     Some (PList cs) \<Rightarrow> (dict_set data ''contributor'' (PList items'), err)
                   | _ \<Rightarrow> (data, err))))"

text \<open>
  The steps before the relations leave the \<^verbatim>\<open>relation\<close> entry alone, and the value
  stored under a key is smaller than the dict: the recursion into the relations'
  \<^verbatim>\<open>bibitem\<close>s ends.
\<close>

lemma map_of_dict_set: "map_of (dict_set d k' v) k = (if k = k' then Some v else map_of d k)"
  by (induction d) auto

lemma size_map_of: "map_of d k = Some v \<Longrightarrow> size v < size (PDict d)"
  by (induction d) (auto split: if_splits)

lemma nr_version_relation: "map_of (nr_version d) ''relation'' = map_of d ''relation''"
  by (auto simp: nr_version_def Let_def map_of_dict_set split: sum.splits)

lemma nr_edition_relation: "map_of (nr_edition d) ''relation'' = map_of d ''relation''"
  by (auto simp: nr_edition_def Let_def map_of_dict_set)

lemma nr_keyword_relation: "map_of (fst (nr_keyword d)) ''relation'' = map_of d ''relation''"
  by (auto simp: nr_keyword_def Let_def map_of_dict_set split: sum.splits)

lemma nr_contributor_relation:
  "map_of (fst (nr_contributor d)) ''relation'' = map_of d ''relation''"
  by (auto simp: nr_contributor_def Let_def map_of_dict_set
      split: sum.splits prod.splits option.splits pyval.splits)

text \<open>
  \<^verbatim>\<open>normalize_relaxed\<close>, util.py lines 100-181, with the comprehension of lines 172-179
  as \<open>normalize_relations\<close>. The comprehension returns the items as they are left (each
  \<^verbatim>\<open>bibitem\<close> is normalized in place) and either the exception or the new list.
  In \<^verbatim>\<open>{"bibitem": normalize_relaxed(bibitem), **r}\<close> the items of \<open>r\<close> are stored after
  the \<^verbatim>\<open>bibitem\<close> entry; \<open>r\<close> holds the normalized \<^verbatim>\<open>bibitem\<close> by then, the same
  object that \<^verbatim>\<open>normalize_relaxed\<close> returns.
\<close>

function (sequential) normalize_relaxed :: "pyval \<Rightarrow> pyval \<times> pyerr option"
  and normalize_relations :: "pyval list \<Rightarrow> pyval list \<times> (pyerr + pyval list)"
where
  "normalize_relaxed (PDict data) =
     (let d2 = nr_edition (nr_version data)
      in case nr_keyword d2 of
           (d3, Some e) \<Rightarrow> (PDict d3, Some e)
         | (d3, None) \<Rightarrow>
             (case nr_contributor d3 of
                (d4, Some e) \<Rightarrow> (PDict d4, Some e)
              | (d4, None) \<Rightarrow>
                  (let relations = get_or d4 ''relation'' (PList [])
                   in if truthy relations then
                        (case py_iter relations of
                           Inl e \<Rightarrow> (PDict d4, Some e)
                         | Inr rs \<Rightarrow>
                             (case normalize_relations rs of
                                (rs', Inl e) \<Rightarrow>
                                  (case relations of
                                     PList old \<Rightarrow> (PDict (dict_set d4 ''relation'' (PList rs')), Some e)
                                   | _ \<Rightarrow> (PDict d4, Some e))
                              | (rs', Inr new) \<Rightarrow>
                                  (PDict (dict_set d4 ''relation'' (PList new)), None)))
                      else (PDict d4, None))))"
| "normalize_relaxed v = (v, Some AttributeError)"
| "normalize_relations [] = ([], Inr [])"
| "normalize_relations (PDict r # rs) =
     (let bibitem = get_or r ''bibitem'' PNone
      in if truthy bibitem then
           (case normalize_relaxed bibitem of
              (bibitem', Some e) \<Rightarrow> (PDict (dict_set r ''bibitem'' bibitem') # rs, Inl e)
            | (bibitem', None) \<Rightarrow>
                (let r' = dict_set r ''bibitem'' bibitem'
                 in case normalize_relations rs of
                      (rs', Inl e) \<Rightarrow> (PDict r' # rs', Inl e)
                    | (rs', Inr new) \<Rightarrow>
                        (PDict r' # rs',
                         Inr (PDict (dict_merge [(''bibitem'', bibitem')] r') # new))))
         else
           (case normalize_relations rs of (rs', res) \<Rightarrow> (PDict r # rs', res)))"
| "normalize_relations (v # rs) = (v # rs, Inl AttributeError)"
  by pat_completeness auto
termination
proof (relation "inv_image (less_than <*lex*> less_than)
            (\<lambda>x. case x of Inl v \<Rightarrow> (size v, 0)
                          | Inr rs \<Rightarrow> (sum_list (map size rs), length rs))", goal_cases)
  case 1
  show ?case by (intro wf_inv_image wf_lex_prod wf_less_than)
next
  case (2 data d2 d3 y d4 ya relations rs)
  have rel: "map_of d4 ''relation'' = map_of data ''relation''"
    using 2 nr_contributor_relation[of d3] nr_keyword_relation[of d2]
      nr_edition_relation[of "nr_version data"] nr_version_relation[of data]
    by (metis fst_conv)
  have "sum_list (map size rs) < size (PDict data)"
  proof (cases "map_of data ''relation''")
    case None
    with rel 2 show ?thesis by (simp add: get_or_def)
  next
    case (Some v)
    with rel 2 have v: "relations = v" by (simp add: get_or_def)
    have "sum_list (map size rs) \<le> size v"
      using 2(8) unfolding v
      by (cases v) (auto simp: size_list_conv_sum_list comp_def)
    with size_map_of[OF Some] show ?thesis by simp
  qed
  then show ?case by simp
next
  case (3 r rs bibitem)
  then have "map_of r ''bibitem'' = Some bibitem"
    by (auto simp: get_or_def split: option.splits)
  from size_map_of[OF this] show ?case by simp
next
  case 4
  then show ?case by simp
next
  case 5
  then show ?case by simp
qed


section \<open>The lenient constructor\<close>

text \<open>
  \<^verbatim>\<open>construct_bibitem\<close>, util.py lines 14-62. The schema class belongs to another
  package (\<^verbatim>\<open>relaton.models.bibdata\<close>), so its two constructors are parameters:
  \<open>BibliographicItem\<close> validates and gives the item or the errors of a
  \<^verbatim>\<open>pydantic.ValidationError\<close>, \<open>construct\<close> builds an item without validating.
  \<^verbatim>\<open>**data\<close> needs a mapping. The result carries the warnings logged.
\<close>

datatype 'e exn = Raised pyerr | ValidationError "'e list"

datatype 'e format_warning = Unexpected_format pyval "'e list"

definition construct_bibitem ::
  "(pydict \<Rightarrow> 'e list + 'item) \<Rightarrow> (pydict \<Rightarrow> 'item) \<Rightarrow> pyval \<Rightarrow> bool
    \<Rightarrow> 'e exn + ('item \<times> 'e list option) \<times> 'e format_warning list"
where
  "construct_bibitem BibliographicItem construct data strict =
     (case fst (normalize_relaxed data) of
        PDict d \<Rightarrow>
          if strict then
            (case BibliographicItem d of
               Inl errs \<Rightarrow> Inl (ValidationError errs)
             | Inr bibitem \<Rightarrow> Inr ((bibitem, None), []))
          else
            (case BibliographicItem d of
               Inl errs \<Rightarrow>
                 Inr ((construct d, Some errs),
                      [Unexpected_format (get_or d ''docid'' (PStr ''docid N/A'')) errs])
             | Inr bibitem \<Rightarrow> Inr ((bibitem, None), []))
      | _ \<Rightarrow> Inl (Raised TypeError))"

section \<open>The primary identifier selector\<close>

text \<open>
  A \<^verbatim>\<open>DocID\<close> as \<^verbatim>\<open>get_primary_docid\<close> reads it: every attribute may be \<^verbatim>\<open>None\<close>.
\<close>

record DocID =
  id_attr :: "string option"
  type_attr :: "string option"
  scope :: "string option"
  primary :: "bool option"

datatype docid_warning = Unexpected_number "DocID list" nat

text \<open>
  \<^verbatim>\<open>get_primary_docid\<close>, util.py lines 65-97: the result and the warnings logged.
  \<^verbatim>\<open>frozenset([id.id, id.type])\<close> is the set of the two attribute values.
\<close>

definition get_primary_docid :: "DocID list \<Rightarrow> DocID option \<times> docid_warning list" where
  "get_primary_docid raw_ids =
     (let primary_docids =
            filter (\<lambda>docid. primary docid = Some True \<and> id_attr docid \<noteq> None
                      \<and> type_attr docid \<noteq> None \<and> scope docid = None) raw_ids;
          deduped = set (map (\<lambda>d. {id_attr d, type_attr d}) primary_docids);
          warnings =
            (if card deduped \<noteq> 1 then [Unexpected_number raw_ids (length primary_docids)]
             else [])
      in (case primary_docids of [] \<Rightarrow> None | docid # rest \<Rightarrow> Some docid, warnings))"

section \<open>Notions used in the statements\<close>

text \<open>
  The "true primary" of the data model, in the spec's words: \<^verbatim>\<open>primary\<close> is true,
  \<^verbatim>\<open>id\<close> and \<^verbatim>\<open>type\<close> are present, \<^verbatim>\<open>scope\<close> is absent.
\<close>

definition true_primary :: "DocID \<Rightarrow> bool" where
  "true_primary d = (primary d = Some True \<and> id_attr d \<noteq> None \<and> type_attr d \<noteq> None \<and> scope d = None)"


text \<open>
  One of the rules on \<^verbatim>\<open>type\<close> and \<^verbatim>\<open>value\<close> applies: the type is truthy, the
  \<^verbatim>\<open>value\<close> key is present, and the value is falsy or the type is one of the four
  the function knows.
\<close>

definition typed_rule :: "pydict \<Rightarrow> bool" where
  "typed_rule d =
     (truthy (get_or d ''type'' PNone) \<and> has_key d ''value''
      \<and> (truthy (get_or d ''value'' PNone)
           \<longrightarrow> get_or d ''type'' PNone \<in> {PStr ''email'', PStr ''uri'', PStr ''url'', PStr ''phone''}))"

text \<open>
  A relation entry that the comprehension keeps: a mapping whose \<^verbatim>\<open>bibitem\<close> is
  truthy. An entry without the key and an entry with a falsy \<^verbatim>\<open>bibitem\<close> (an empty
  mapping, \<^verbatim>\<open>None\<close>) are the other mappings.
\<close>

definition has_truthy_bibitem :: "pyval \<Rightarrow> bool" where
  "has_truthy_bibitem r =
     (case r of PDict d \<Rightarrow> truthy (get_or d ''bibitem'' PNone) | _ \<Rightarrow> False)"

text \<open>
  What a kept entry \<open>r\<close> becomes: \<^verbatim>\<open>{"bibitem": normalize_relaxed(bibitem), **r}\<close>,
  where the recursive call has returned normally.
\<close>

definition kept_as :: "pyval \<Rightarrow> pyval \<Rightarrow> bool" where
  "kept_as r n =
     (\<exists>d b. r = PDict d \<and> normalize_relaxed (get_or d ''bibitem'' PNone) = (b, None)
        \<and> n = PDict (dict_merge [(''bibitem'', b)] (dict_set d ''bibitem'' b)))"

text \<open>A schema for the example: it requires a \<^verbatim>\<open>title\<close> and builds the mapping itself.\<close>

definition example_schema :: "pydict \<Rightarrow> string list + pydict" where
  "example_schema d = (if has_key d ''title'' then Inr d else Inl [''title: field required''])"

section \<open>Properties of the field normalizers\<close>

text \<open>
  C4. The claim: when the \<^verbatim>\<open>content\<close> entry of the mapping is absent or falsy,
  \<^verbatim>\<open>ensure_formatted_string_content\<close> gives the mapping with \<^verbatim>\<open>content\<close> set to the
  empty string and the other keys kept, and otherwise the mapping unchanged; \<^verbatim>\<open>{}\<close>
  becomes \<^verbatim>\<open>{content: ""}\<close> and \<^verbatim>\<open>{content: "Jane"}\<close> stays. The code does so for an
  absent entry and for a truthy one. For an entry that is present and falsy
  (\<^verbatim>\<open>{content: ""}\<close>, or \<^verbatim>\<open>{content: None, language: "en"}\<close>) the call
  \<^verbatim>\<open>dict(content='', **fname)\<close> gets the keyword \<^verbatim>\<open>content\<close> twice and raises
  \<^verbatim>\<open>TypeError\<close>.
\<close>

theorem ensure_formatted_string_content_present_falsy:
  "ensure_formatted_string_content (PDict []) = Inr (PDict [(''content'', PStr '''')])
   \<and> ensure_formatted_string_content (PDict [(''content'', PStr ''Jane'')])
       = Inr (PDict [(''content'', PStr ''Jane'')])
   \<and> ensure_formatted_string_content (PDict [(''content'', PStr '''')]) = Inl TypeError
   \<and> ensure_formatted_string_content (PDict [(''content'', PNone), (''language'', PStr ''en'')])
       = Inl TypeError"
  by (simp add: ensure_formatted_string_content_def get_or_def has_key_def)














section \<open>Properties of the primary identifier selector\<close>

text \<open>
  C5. The claim: the primary identifiers are deduplicated by the pair (id, type), two
  identifiers that differ in id or in type count as two, and two identical entries count
  as one (no warning, the identifier is returned). The code deduplicates by the set of
  the two values, which has no order: the two identical entries do count as one, and so
  do the identifiers A of type B and B of type A. They differ in id and in type, and
  the code logs no warning for them.
\<close>

theorem get_primary_docid_swapped_pair:
  "get_primary_docid
     [\<lparr>id_attr = Some ''A'', type_attr = Some ''B'', scope = None, primary = Some True\<rparr>,
      \<lparr>id_attr = Some ''B'', type_attr = Some ''A'', scope = None, primary = Some True\<rparr>]
   = (Some \<lparr>id_attr = Some ''A'', type_attr = Some ''B'', scope = None, primary = Some True\<rparr>,
      [])
   \<and> get_primary_docid
     [\<lparr>id_attr = Some ''A'', type_attr = Some ''DOI'', scope = None, primary = Some True\<rparr>,
      \<lparr>id_attr = Some ''A'', type_attr = Some ''DOI'', scope = None, primary = Some True\<rparr>]
   = (Some \<lparr>id_attr = Some ''A'', type_attr = Some ''DOI'', scope = None, primary = Some True\<rparr>,
      [])"
  by (simp add: get_primary_docid_def insert_commute)

lemma first_of_filter: "(case filter P xs of [] \<Rightarrow> None | x # rest \<Rightarrow> Some x) = List.find P xs"
  by (induction xs) auto

text \<open>
  C6. The claim: \<^verbatim>\<open>get_primary_docid\<close> filters to the true primaries, warns exactly
  when the deduplicated count is not 1, returns the first of the filtered entries or
  none, and in particular two distinct primaries (different id and type) cause a
  warning. The code returns the first entry of the input that is a true primary, and
  none when there is none; it logs a warning exactly when the number of distinct sets
  \<open>{id, type}\<close> among the true primaries is not 1, citing the input and the number of
  true primaries; for A of type DOI and B of type ISBN it warns and returns the first.
  But two primaries with different ids and different types, ISO of type IEC and IEC of
  type ISO, have the same set, and no warning is logged for them.
\<close>

theorem get_primary_docid_warning_missed:
  "fst (get_primary_docid raw_ids) = List.find true_primary raw_ids
   \<and> (snd (get_primary_docid raw_ids) \<noteq> []
        \<longleftrightarrow> card ((\<lambda>d. {id_attr d, type_attr d}) ` {d \<in> set raw_ids. true_primary d}) \<noteq> 1)
   \<and> (snd (get_primary_docid raw_ids) = []
        \<or> snd (get_primary_docid raw_ids)
            = [Unexpected_number raw_ids (length (filter true_primary raw_ids))])
   \<and> get_primary_docid
        [\<lparr>id_attr = Some ''A'', type_attr = Some ''DOI'', scope = None, primary = Some True\<rparr>,
         \<lparr>id_attr = Some ''B'', type_attr = Some ''ISBN'', scope = None, primary = Some True\<rparr>]
      = (Some \<lparr>id_attr = Some ''A'', type_attr = Some ''DOI'', scope = None, primary = Some True\<rparr>,
         [Unexpected_number
           [\<lparr>id_attr = Some ''A'', type_attr = Some ''DOI'', scope = None, primary = Some True\<rparr>,
            \<lparr>id_attr = Some ''B'', type_attr = Some ''ISBN'', scope = None, primary = Some True\<rparr>]
           2])
   \<and> get_primary_docid
        [\<lparr>id_attr = Some ''ISO'', type_attr = Some ''IEC'', scope = None, primary = Some True\<rparr>,
         \<lparr>id_attr = Some ''IEC'', type_attr = Some ''ISO'', scope = None, primary = Some True\<rparr>]
      = (Some \<lparr>id_attr = Some ''ISO'', type_attr = Some ''IEC'', scope = None, primary = Some True\<rparr>,
         [])"
proof -
  have flt: "(\<lambda>docid. primary docid = Some True \<and> id_attr docid \<noteq> None
                      \<and> type_attr docid \<noteq> None \<and> scope docid = None) = true_primary"
    by (rule ext) (simp only: true_primary_def)
  have img: "set (map f (filter true_primary xs)) = f ` {d \<in> set xs. true_primary d}"
    for f :: "DocID \<Rightarrow> string option set" and xs
    by auto
  have 1: "fst (get_primary_docid raw_ids) = List.find true_primary raw_ids"
    unfolding get_primary_docid_def Let_def flt by (simp add: first_of_filter)
  have 2: "snd (get_primary_docid raw_ids) \<noteq> []
        \<longleftrightarrow> card ((\<lambda>d. {id_attr d, type_attr d}) ` {d \<in> set raw_ids. true_primary d}) \<noteq> 1"
    unfolding get_primary_docid_def Let_def flt img by simp
  have 3: "snd (get_primary_docid raw_ids) = []
        \<or> snd (get_primary_docid raw_ids)
            = [Unexpected_number raw_ids (length (filter true_primary raw_ids))]"
    unfolding get_primary_docid_def Let_def flt by simp
  have 4: "get_primary_docid
        [\<lparr>id_attr = Some ''A'', type_attr = Some ''DOI'', scope = None, primary = Some True\<rparr>,
         \<lparr>id_attr = Some ''B'', type_attr = Some ''ISBN'', scope = None, primary = Some True\<rparr>]
      = (Some \<lparr>id_attr = Some ''A'', type_attr = Some ''DOI'', scope = None, primary = Some True\<rparr>,
         [Unexpected_number
           [\<lparr>id_attr = Some ''A'', type_attr = Some ''DOI'', scope = None, primary = Some True\<rparr>,
            \<lparr>id_attr = Some ''B'', type_attr = Some ''ISBN'', scope = None, primary = Some True\<rparr>]
           2])"
    by (simp add: get_primary_docid_def doubleton_eq_iff)
  have 5: "get_primary_docid
        [\<lparr>id_attr = Some ''ISO'', type_attr = Some ''IEC'', scope = None, primary = Some True\<rparr>,
         \<lparr>id_attr = Some ''IEC'', type_attr = Some ''ISO'', scope = None, primary = Some True\<rparr>]
      = (Some \<lparr>id_attr = Some ''ISO'', type_attr = Some ''IEC'', scope = None, primary = Some True\<rparr>,
         [])"
    by (simp add: get_primary_docid_def insert_commute)
  from 1 2 3 4 5 show ?thesis by blast
qed

section \<open>Properties of the contact normalizer\<close>

text \<open>
  C7. \<^verbatim>\<open>normalize_contact\<close> by the first rule that matches: type \<^verbatim>\<open>email\<close> with a
  truthy value gives \<^verbatim>\<open>{email: value}\<close>; type \<^verbatim>\<open>uri\<close> or \<^verbatim>\<open>url\<close> gives
  \<^verbatim>\<open>{uri: value}\<close>; type \<^verbatim>\<open>phone\<close> gives \<^verbatim>\<open>{phone: {content: value}}\<close>; a truthy
  type with a falsy value gives \<^verbatim>\<open>None\<close> (the caller drops the entry); otherwise a
  mapping with a \<^verbatim>\<open>city\<close> or \<^verbatim>\<open>country\<close> key gives \<^verbatim>\<open>{address: mapping}\<close>;
  otherwise a mapping with a string under \<^verbatim>\<open>phone\<close> gives
  \<^verbatim>\<open>{phone: {content: string}}\<close>; an input that is not a mapping raises
  \<^verbatim>\<open>TypeError\<close>.
\<close>

theorem normalize_contact_rules:
  "(get_or d ''type'' PNone = PStr ''email'' \<and> has_key d ''value'' \<and> truthy (get_or d ''value'' PNone)
      \<longrightarrow> normalize_contact (PDict d) = Inr (PDict [(''email'', get_or d ''value'' PNone)]))
   \<and> ((get_or d ''type'' PNone = PStr ''uri'' \<or> get_or d ''type'' PNone = PStr ''url'')
        \<and> has_key d ''value'' \<and> truthy (get_or d ''value'' PNone)
      \<longrightarrow> normalize_contact (PDict d) = Inr (PDict [(''uri'', get_or d ''value'' PNone)]))
   \<and> (get_or d ''type'' PNone = PStr ''phone'' \<and> has_key d ''value'' \<and> truthy (get_or d ''value'' PNone)
      \<longrightarrow> normalize_contact (PDict d)
            = Inr (PDict [(''phone'', PDict [(''content'', get_or d ''value'' PNone)])]))
   \<and> (truthy (get_or d ''type'' PNone) \<and> has_key d ''value'' \<and> \<not> truthy (get_or d ''value'' PNone)
      \<longrightarrow> normalize_contact (PDict d) = Inr PNone)
   \<and> (\<not> typed_rule d \<and> (has_key d ''city'' \<or> has_key d ''country'')
      \<longrightarrow> normalize_contact (PDict d) = Inr (PDict [(''address'', PDict d)]))
   \<and> (\<not> typed_rule d \<and> \<not> has_key d ''city'' \<and> \<not> has_key d ''country''
        \<and> map_of d ''phone'' = Some (PStr s)
      \<longrightarrow> normalize_contact (PDict d) = Inr (PDict [(''phone'', PDict [(''content'', PStr s)])]))
   \<and> (\<not> isinstance_dict raw \<longrightarrow> normalize_contact raw = Inl TypeError)"
proof (intro conjI impI)
  show "normalize_contact raw = Inl TypeError" if "\<not> isinstance_dict raw"
    using that by (cases raw) (simp_all add: normalize_contact_def)
qed (auto simp: normalize_contact_def typed_rule_def Let_def has_key_def get_or_def)

theorem normalize_contact_rules_witness:
  "normalize_contact (PDict [(''type'', PStr ''email''), (''value'', PStr ''a@b.com'')])
     = Inr (PDict [(''email'', PStr ''a@b.com'')])
   \<and> normalize_contact (PDict [(''type'', PStr ''url''), (''value'', PStr ''http://b.com'')])
     = Inr (PDict [(''uri'', PStr ''http://b.com'')])
   \<and> normalize_contact (PDict [(''type'', PStr ''phone''), (''value'', PStr ''123'')])
     = Inr (PDict [(''phone'', PDict [(''content'', PStr ''123'')])])
   \<and> normalize_contact (PDict [(''type'', PStr ''email''), (''value'', PStr '''')]) = Inr PNone
   \<and> normalize_contact (PDict [(''city'', PStr ''X'')])
     = Inr (PDict [(''address'', PDict [(''city'', PStr ''X'')])])
   \<and> normalize_contact (PDict [(''phone'', PStr ''123'')])
     = Inr (PDict [(''phone'', PDict [(''content'', PStr ''123'')])])
   \<and> normalize_contact (PStr ''a@b.com'') = Inl TypeError"
  using normalize_contact_rules [of "[(''type'', PStr ''email''), (''value'', PStr ''a@b.com'')]"]
    normalize_contact_rules [of "[(''type'', PStr ''url''), (''value'', PStr ''http://b.com'')]"]
    normalize_contact_rules [of "[(''type'', PStr ''phone''), (''value'', PStr ''123'')]"]
    normalize_contact_rules [of "[(''type'', PStr ''email''), (''value'', PStr '''')]"]
    normalize_contact_rules [of "[(''city'', PStr ''X'')]"]
    normalize_contact_rules [of "[(''phone'', PStr ''123'')]" "''123''" "PStr ''a@b.com''"]
  by (simp add: typed_rule_def get_or_def has_key_def)

text \<open>
  C9. A mapping with a truthy type other than \<^verbatim>\<open>email\<close>, \<^verbatim>\<open>uri\<close>, \<^verbatim>\<open>url\<close>,
  \<^verbatim>\<open>phone\<close>, with a truthy value, without \<^verbatim>\<open>city\<close> and \<^verbatim>\<open>country\<close> and without
  a string under \<^verbatim>\<open>phone\<close>, is returned as it is: not dropped, not converted, and
  nothing is raised.
\<close>

theorem normalize_contact_passthrough:
  assumes "truthy (get_or d ''type'' PNone)"
    and "get_or d ''type'' PNone \<notin> {PStr ''email'', PStr ''uri'', PStr ''url'', PStr ''phone''}"
    and "has_key d ''value''" and "truthy (get_or d ''value'' PNone)"
    and "\<not> has_key d ''city''" and "\<not> has_key d ''country''"
    and "\<not> (has_key d ''phone'' \<and> isinstance_str (get_or d ''phone'' PNone))"
  shows "normalize_contact (PDict d) = Inr (PDict d)"
  using assms by (auto simp: normalize_contact_def Let_def)

theorem normalize_contact_passthrough_witness:
  "normalize_contact (PDict [(''type'', PStr ''fax''), (''value'', PStr ''555'')])
     = Inr (PDict [(''type'', PStr ''fax''), (''value'', PStr ''555'')])"
  using normalize_contact_passthrough [of "[(''type'', PStr ''fax''), (''value'', PStr ''555'')]"]
  by (simp add: get_or_def has_key_def)

section \<open>Properties of the relaxed canonicalizer\<close>

text \<open>
  C2. The claim: \<^verbatim>\<open>normalize_relaxed\<close> is idempotent. For a person whose forename is
  the empty mapping the first pass returns normally and sets the forename to
  \<^verbatim>\<open>{content: ""}\<close>; the second pass, on that result, raises \<^verbatim>\<open>TypeError\<close> out of
  \<^verbatim>\<open>ensure_formatted_string_content\<close> and returns nothing.
\<close>

theorem normalize_relaxed_twice_raises:
  "normalize_relaxed
     (PDict [(''contributor'', PList [PDict [(''person'',
        PDict [(''name'', PDict [(''given'', PDict [(''forename'', PList [PDict []])])])])]])])
   = (PDict [(''contributor'', PList [PDict [(''person'',
        PDict [(''name'', PDict [(''given'',
          PDict [(''forename'', PList [PDict [(''content'', PStr '''')]])])])])]])], None)
   \<and> snd (normalize_relaxed
     (PDict [(''contributor'', PList [PDict [(''person'',
        PDict [(''name'', PDict [(''given'',
          PDict [(''forename'', PList [PDict [(''content'', PStr '''')]])])])])]])]))
   = Some TypeError"
  by (simp add: nr_version_def nr_edition_def nr_keyword_def nr_contributor_def get_or_def
      has_key_def ensure_formatted_string_content_def Let_def)

text \<open>
  C3. The claim: \<^verbatim>\<open>normalize_relaxed\<close> raises only for an error in a role entry,
  and a failure in the relation recursion is swallowed. Only the version step and the
  contact step are under \<^verbatim>\<open>try\<close>. A person whose \<^verbatim>\<open>name\<close> is a string raises
  \<^verbatim>\<open>AttributeError\<close>; a \<^verbatim>\<open>keyword\<close> entry that is a number raises \<^verbatim>\<open>TypeError\<close>;
  the first of them inside the \<^verbatim>\<open>bibitem\<close> of a relation raises out of the outer call
  too; and so does a relation entry that is a string.
\<close>

theorem normalize_relaxed_raises:
  "snd (normalize_relaxed
     (PDict [(''contributor'', PList [PDict [(''person'', PDict [(''name'', PStr ''John Doe'')])]])]))
   = Some AttributeError
   \<and> snd (normalize_relaxed (PDict [(''keyword'', PInt 5)])) = Some TypeError
   \<and> snd (normalize_relaxed
     (PDict [(''relation'', PList [PDict [(''type'', PStr ''includes''),
        (''bibitem'', PDict [(''contributor'', PList [PDict [(''person'', PDict [(''name'', PStr ''John Doe'')])]])])]])]))
   = Some AttributeError
   \<and> snd (normalize_relaxed
     (PDict [(''relation'', PList [PStr ''RFC 1''])]))
   = Some AttributeError"
  by (simp add: nr_version_def nr_edition_def nr_keyword_def nr_contributor_def get_or_def
      has_key_def ensure_formatted_string_content_def Let_def)

lemma normalize_relations_kept:
  "normalize_relations rs = (rs', Inr new)
   \<Longrightarrow> list_all2 kept_as (filter has_truthy_bibitem rs) new"
proof (induction rs arbitrary: rs' new)
  case Nil
  then show ?case by simp
next
  case (Cons r rs)
  show ?case
  proof (cases r)
    case (PDict d)
    show ?thesis
    proof (cases "truthy (get_or d ''bibitem'' PNone)")
      case True
      obtain b e where b: "normalize_relaxed (get_or d ''bibitem'' PNone) = (b, e)"
        by fastforce
      obtain rs1 res where r1: "normalize_relations rs = (rs1, res)"
        by fastforce
      from Cons.prems PDict True b r1 obtain new1 where
        e: "e = None" and res: "res = Inr new1"
        and new: "new = PDict (dict_merge [(''bibitem'', b)] (dict_set d ''bibitem'' b)) # new1"
        by (auto simp: Let_def split: option.splits sum.splits)
      from Cons.IH r1 res have "list_all2 kept_as (filter has_truthy_bibitem rs) new1"
        by simp
      moreover have "kept_as r (PDict (dict_merge [(''bibitem'', b)] (dict_set d ''bibitem'' b)))"
        using PDict b e by (auto simp: kept_as_def)
      moreover have "has_truthy_bibitem r"
        using PDict True by (simp add: has_truthy_bibitem_def)
      ultimately show ?thesis
        using new by simp
    next
      case False
      obtain rs1 res where r1: "normalize_relations rs = (rs1, res)"
        by fastforce
      from Cons.prems PDict False r1 have "res = Inr new"
        by (simp add: Let_def)
      with Cons.IH r1 have "list_all2 kept_as (filter has_truthy_bibitem rs) new"
        by simp
      moreover have "\<not> has_truthy_bibitem r"
        using PDict False by (simp add: has_truthy_bibitem_def)
      ultimately show ?thesis
        by simp
    qed
  qed (use Cons.prems in simp_all)
qed

text \<open>
  C10. When \<^verbatim>\<open>normalize_relaxed\<close> returns normally on a record whose \<^verbatim>\<open>relation\<close> is
  a non-empty list, the \<^verbatim>\<open>relation\<close> of the result holds, in order, one entry for
  each input entry with a truthy \<^verbatim>\<open>bibitem\<close>, with the \<^verbatim>\<open>bibitem\<close> normalized
  recursively, and nothing else: an entry whose \<^verbatim>\<open>bibitem\<close> is present and falsy is
  removed like an entry without the key.
\<close>

theorem relation_falsy_bibitem_dropped:
  assumes "normalize_relaxed (PDict data) = (PDict out, None)"
    and "map_of data ''relation'' = Some (PList rs)" and "rs \<noteq> []"
  shows "\<exists>new. map_of out ''relation'' = Some (PList new)
           \<and> list_all2 kept_as (filter has_truthy_bibitem rs) new"
proof -
  obtain d3 e3 where k: "nr_keyword (nr_edition (nr_version data)) = (d3, e3)"
    by fastforce
  obtain d4 e4 where c: "nr_contributor d3 = (d4, e4)"
    by fastforce
  from assms(1) k have e3: "e3 = None"
    by (auto simp: Let_def split: option.splits)
  from assms(1) k c e3 have e4: "e4 = None"
    by (auto simp: Let_def split: option.splits)
  have "map_of d4 ''relation'' = map_of data ''relation''"
    using nr_contributor_relation[of d3] nr_keyword_relation[of "nr_edition (nr_version data)"]
      nr_edition_relation[of "nr_version data"] nr_version_relation[of data] k c
    by simp
  with assms(2) have g: "get_or d4 ''relation'' (PList []) = PList rs"
    by (simp add: get_or_def)
  obtain rs1 res where nr: "normalize_relations rs = (rs1, res)"
    by fastforce
  from assms(1,3) k c e3 e4 g nr obtain new where
    res: "res = Inr new" and out: "out = dict_set d4 ''relation'' (PList new)"
    by (auto simp: Let_def split: sum.splits)
  have "map_of out ''relation'' = Some (PList new)"
    by (simp add: out map_of_dict_set)
  moreover have "list_all2 kept_as (filter has_truthy_bibitem rs) new"
    using normalize_relations_kept nr res by simp
  ultimately show ?thesis by blast
qed

theorem relation_falsy_bibitem_dropped_witness:
  "normalize_relaxed (PDict [(''relation'', PList
      [PDict [(''type'', PStr ''includes''), (''bibitem'', PDict [(''title'', PStr ''X'')])],
       PDict [(''type'', PStr ''updates''), (''bibitem'', PDict [])],
       PDict [(''type'', PStr ''obsoletes''), (''bibitem'', PNone)],
       PDict [(''type'', PStr ''cites'')]])])
   = (PDict [(''relation'', PList
      [PDict [(''bibitem'', PDict [(''title'', PStr ''X'')]), (''type'', PStr ''includes'')]])], None)
   \<and> list_all2 kept_as
        [PDict [(''type'', PStr ''includes''), (''bibitem'', PDict [(''title'', PStr ''X'')])]]
        [PDict [(''bibitem'', PDict [(''title'', PStr ''X'')]), (''type'', PStr ''includes'')]]"
proof -
  let ?rs = "[PDict [(''type'', PStr ''includes''), (''bibitem'', PDict [(''title'', PStr ''X'')])],
       PDict [(''type'', PStr ''updates''), (''bibitem'', PDict [])],
       PDict [(''type'', PStr ''obsoletes''), (''bibitem'', PNone)],
       PDict [(''type'', PStr ''cites'')]]"
  let ?out = "[(''relation'', PList
      [PDict [(''bibitem'', PDict [(''title'', PStr ''X'')]), (''type'', PStr ''includes'')]])]"
  have n: "normalize_relaxed (PDict [(''relation'', PList ?rs)]) = (PDict ?out, None)"
    by (simp add: nr_version_def nr_edition_def nr_keyword_def nr_contributor_def get_or_def
        Let_def dict_merge_def)
  have f: "filter has_truthy_bibitem ?rs
           = [PDict [(''type'', PStr ''includes''), (''bibitem'', PDict [(''title'', PStr ''X'')])]]"
    by (simp add: has_truthy_bibitem_def get_or_def)
  from relation_falsy_bibitem_dropped [OF n, of ?rs] n
  show ?thesis unfolding f by simp
qed

section \<open>Properties of the lenient constructor\<close>

text \<open>The record stays a mapping through \<^verbatim>\<open>normalize_relaxed\<close>, raised or not.\<close>

lemma normalize_relaxed_keeps_dict: "\<exists>N. fst (normalize_relaxed (PDict R)) = PDict N"
  by (auto simp: Let_def split: prod.splits option.splits sum.splits pyval.splits)

text \<open>
  C1. For a mapping \<open>R\<close>, let \<open>N\<close> be the record as \<^verbatim>\<open>normalize_relaxed\<close> leaves it
  (the value it returns, when it returns). If the validating constructor fails on \<open>N\<close>
  with the errors \<open>errs\<close>, then \<^verbatim>\<open>construct_bibitem\<close> with \<^verbatim>\<open>strict=True\<close> raises
  that validation error, and with \<^verbatim>\<open>strict=False\<close> returns the item built from \<open>N\<close>
  by the unchecked constructor together with the error list \<open>errs\<close> (not \<^verbatim>\<open>None\<close>),
  and logs a warning. With \<^verbatim>\<open>strict=False\<close> no input makes it raise a validation
  error. Such an \<open>N\<close> exists for every mapping.
\<close>

theorem construct_bibitem_strict_propagation:
  "(fst (normalize_relaxed (PDict R)) = PDict N \<and> BibliographicItem N = Inl errs
      \<longrightarrow> construct_bibitem BibliographicItem construct (PDict R) True = Inl (ValidationError errs)
        \<and> construct_bibitem BibliographicItem construct (PDict R) False
            = Inr ((construct N, Some errs),
                   [Unexpected_format (get_or N ''docid'' (PStr ''docid N/A'')) errs]))
   \<and> construct_bibitem BibliographicItem construct data False \<noteq> Inl (ValidationError errs')
   \<and> (\<exists>N. fst (normalize_relaxed (PDict R)) = PDict N)"
proof (intro conjI impI)
  show "construct_bibitem BibliographicItem construct data False \<noteq> Inl (ValidationError errs')"
    by (simp add: construct_bibitem_def split: pyval.splits sum.splits)
  show "\<exists>N. fst (normalize_relaxed (PDict R)) = PDict N"
    by (rule normalize_relaxed_keeps_dict)
qed (simp_all add: construct_bibitem_def)

theorem construct_bibitem_strict_propagation_witness:
  "construct_bibitem example_schema id (PDict [(''edition'', PStr ''2'')]) True
     = Inl (ValidationError [''title: field required''])
   \<and> construct_bibitem example_schema id (PDict [(''edition'', PStr ''2'')]) False
     = Inr (([(''edition'', PDict [(''content'', PStr ''2'')])], Some [''title: field required'']),
            [Unexpected_format (PStr ''docid N/A'') [''title: field required'']])"
proof -
  have n: "fst (normalize_relaxed (PDict [(''edition'', PStr ''2'')]))
           = PDict [(''edition'', PDict [(''content'', PStr ''2'')])]"
    by (simp add: nr_version_def nr_edition_def nr_keyword_def nr_contributor_def get_or_def Let_def)
  have v: "example_schema [(''edition'', PDict [(''content'', PStr ''2'')])] = Inl [''title: field required'']"
    by (simp add: example_schema_def has_key_def)
  from construct_bibitem_strict_propagation
      [of "[(''edition'', PStr ''2'')]" "[(''edition'', PDict [(''content'', PStr ''2'')])]"
          example_schema "[''title: field required'']" id] n v
  show ?thesis by (simp add: get_or_def)
qed

end
